theory Spec2Isabelle
  imports Main
begin

section \<open>Python values and exceptions\<close>

text \<open>
  The specification handed to \<^verbatim>\<open>init_model_factory\<close> is whatever the JSON or YAML
  parser produced: a nested structure of dictionaries with string keys, lists and
  scalars. A dictionary is an association list; a lookup takes the first entry of a key.
\<close>

datatype pyval =
    PNone
  | PBool bool
  | PInt int
  | PStr string
  | PList "pyval list"
  | PDict "(string \<times> pyval) list"

text \<open>
  The exceptions the module raises itself or meets in the interpreter. The class
  \<^verbatim>\<open>exceptions.MalformedSpecificationError\<close> is the structural error of the package; the
  others are Python's own. Each carries its message.
\<close>

datatype error =
    MalformedSpecificationError string
  | TypeError string
  | AttributeError string
  | NameError string
  | UnboundLocalError string
  | ImportError string
  | FileNotFoundError string
  | ParseError string

fun is_prefix :: "string \<Rightarrow> string \<Rightarrow> bool" where
  "is_prefix [] s = True"
| "is_prefix (c # cs) [] = False"
| "is_prefix (c # cs) (d # ds) = (c = d \<and> is_prefix cs ds)"

text \<open>Python's \<^verbatim>\<open>k in s\<close> on two strings: \<open>k\<close> occurs in \<open>s\<close> as a substring.\<close>

fun substring :: "string \<Rightarrow> string \<Rightarrow> bool" where
  "substring k [] = (k = [])"
| "substring k (c # cs) = (is_prefix k (c # cs) \<or> substring k cs)"

text \<open>
  \<^verbatim>\<open>k in container\<close> for a string \<open>k\<close>: key membership on a dictionary, substring
  test on a string, element membership on a list, and a \<^verbatim>\<open>TypeError\<close> on a value
  that is not iterable.
\<close>

fun py_in :: "string \<Rightarrow> pyval \<Rightarrow> error + bool" where
  "py_in k (PDict kvs) = Inr (k \<in> set (map fst kvs))"
| "py_in k (PStr s) = Inr (substring k s)"
| "py_in k (PList xs) = Inr (PStr k \<in> set xs)"
| "py_in k PNone = Inl (TypeError ''argument of type NoneType is not iterable'')"
| "py_in k (PBool b) = Inl (TypeError ''argument of type bool is not iterable'')"
| "py_in k (PInt i) = Inl (TypeError ''argument of type int is not iterable'')"

text \<open>
  \<^verbatim>\<open>container.get(k, default)\<close>: only a dictionary has the method; any other value
  raises \<^verbatim>\<open>AttributeError\<close>.
\<close>

fun py_get :: "pyval \<Rightarrow> string \<Rightarrow> pyval \<Rightarrow> error + pyval" where
  "py_get (PDict kvs) k d = Inr (case map_of kvs k of None \<Rightarrow> d | Some v \<Rightarrow> v)"
| "py_get v k d = Inl (AttributeError ''object has no attribute get'')"

section \<open>The cached model factory\<close>

text \<open>
  \<^verbatim>\<open>functools.partial(_model_factory.model_factory, schemas=schemas, base=base)\<close>
  binds two keyword arguments; \<^verbatim>\<open>functools.lru_cache(maxsize=None)\<close> wraps the result
  with an unbounded dictionary from call keys to results and two counters.

  The protocol \<^verbatim>\<open>ModelFactory\<close> gives the call the single parameter \<^verbatim>\<open>name\<close>, which
  Python lets the caller pass by position or by keyword.
\<close>

datatype call_args = Positional string | Keyword string

fun arg_name :: "call_args \<Rightarrow> string" where
  "arg_name (Positional n) = n"
| "arg_name (Keyword n) = n"

text \<open>
  The key \<^verbatim>\<open>lru_cache\<close> builds from a call: the positional arguments, then, when there
  are keyword arguments, a marker followed by each keyword and its value.
\<close>

datatype key_item = KwdMark | Item string

fun make_key :: "call_args \<Rightarrow> key_item list" where
  "make_key (Positional n) = [Item n]"
| "make_key (Keyword n) = [KwdMark, Item ''name'', Item n]"

record ('b, 'c) factory =
  bound_schemas :: pyval
  bound_base :: 'b
  cache :: "key_item list \<rightharpoonup> 'c"
  hits :: nat
  misses :: nat

definition components_msg :: string where
  \<open>components_msg = ''"components" is a required key in the specification.''\<close>

definition schemas_msg :: string where
  \<open>schemas_msg = ''"schemas" is a required key in the components of the specification.''\<close>

text \<open>
  \<^verbatim>\<open>init_model_factory(*, base, spec)\<close>: the two membership tests, each followed by
  the \<^verbatim>\<open>get\<close> of the same key, then the partial application and the empty cache.
\<close>

definition init_model_factory :: "'b \<Rightarrow> pyval \<Rightarrow> error + ('b, 'c) factory" where
  "init_model_factory base spec =
     (case py_in ''components'' spec of
        Inl e \<Rightarrow> Inl e
      | Inr has_components \<Rightarrow>
          if \<not> has_components then Inl (MalformedSpecificationError components_msg)
          else
            (case py_get spec ''components'' (PDict []) of
               Inl e \<Rightarrow> Inl e
             | Inr components \<Rightarrow>
                 (case py_in ''schemas'' components of
                    Inl e \<Rightarrow> Inl e
                  | Inr has_schemas \<Rightarrow>
                      if \<not> has_schemas then Inl (MalformedSpecificationError schemas_msg)
                      else
                        (case py_get components ''schemas'' (PDict []) of
                           Inl e \<Rightarrow> Inl e
                         | Inr schemas \<Rightarrow>
                             Inr \<lparr>bound_schemas = schemas, bound_base = base,
                                  cache = Map.empty, hits = 0, misses = 0\<rparr>))))"


text \<open>
  The model-building function \<^verbatim>\<open>_model_factory.model_factory\<close> is a parameter of the
  model. It receives the caller's argument and the two bound keywords, may change the
  world outside the factory (it creates a class and registers it with the base), and
  either raises or returns a class object. Class objects are compared by reference, so
  \<open>'c\<close> stands for object identities.
\<close>

type_synonym ('b, 'c, 'e, 'w) collaborator =
  "call_args \<Rightarrow> pyval \<Rightarrow> 'b \<Rightarrow> 'w \<Rightarrow> ('e + 'c) \<times> 'w"

text \<open>
  A factory in use: the factory, the world the collaborator acts on, and the list of the
  collaborator's invocations so far, each with the arguments it received and its outcome
  (what a mock of the collaborator records).
\<close>

record ('b, 'c, 'e, 'w) session =
  fac :: "('b, 'c) factory"
  world :: 'w
  invocations :: "((call_args \<times> pyval \<times> 'b) \<times> ('e + 'c)) list"

definition start :: "('b, 'c) factory \<Rightarrow> 'w \<Rightarrow> ('b, 'c, 'e, 'w) session" where
  "start f w = \<lparr>fac = f, world = w, invocations = []\<rparr>"

text \<open>
  One call of the factory, as the unbounded \<^verbatim>\<open>lru_cache\<close> wrapper runs it: look the key
  up; on a hit count it and return the stored object; on a miss count it, call the wrapped
  function, and store the result only when the function returned. An exception leaves
  the wrapper before the store.
\<close>

definition call ::
  "('b, 'c, 'e, 'w) collaborator \<Rightarrow> call_args \<Rightarrow> ('b, 'c, 'e, 'w) session
     \<Rightarrow> ('e + 'c) \<times> ('b, 'c, 'e, 'w) session" where
  "call mf a s =
     (let f = fac s; key = make_key a in
      case cache f key of
        Some c \<Rightarrow> (Inr c, s\<lparr>fac := f\<lparr>hits := hits f + 1\<rparr>\<rparr>)
      | None \<Rightarrow>
          (let f1 = f\<lparr>misses := misses f + 1\<rparr>;
               (r, w1) = mf a (bound_schemas f) (bound_base f) (world s);
               s1 = s\<lparr>fac := f1, world := w1,
                      invocations := invocations s @ [((a, bound_schemas f, bound_base f), r)]\<rparr>
           in case r of
                Inl e \<Rightarrow> (Inl e, s1)
              | Inr c \<Rightarrow> (Inr c, s1\<lparr>fac := f1\<lparr>cache := (cache f1)(key \<mapsto> c)\<rparr>\<rparr>)))"

text \<open>A sequence of calls on the same factory, with the result of each.\<close>

fun calls ::
  "('b, 'c, 'e, 'w) collaborator \<Rightarrow> call_args list \<Rightarrow> ('b, 'c, 'e, 'w) session
     \<Rightarrow> ('e + 'c) list \<times> ('b, 'c, 'e, 'w) session" where
  "calls mf [] s = ([], s)"
| "calls mf (a # as) s =
     (case call mf a s of (r, s1) \<Rightarrow>
        (case calls mf as s1 of (rs, s2) \<Rightarrow> (r # rs, s2)))"

text \<open>
  How often the collaborator has returned a class for a given cache key, and the pairs of
  key and class object that a sequence of calls handed back to the caller.
\<close>

fun succeeded :: "key_item list \<Rightarrow> (call_args \<times> pyval \<times> 'b) \<times> ('e + 'c) \<Rightarrow> bool" where
  "succeeded k ((a, sch, b), Inr c) = (make_key a = k)"
| "succeeded k ((a, sch, b), Inl e) = False"

definition successes ::
  "key_item list \<Rightarrow> ((call_args \<times> pyval \<times> 'b) \<times> ('e + 'c)) list \<Rightarrow> nat" where
  "successes k log = length (filter (succeeded k) log)"

text \<open>
  The cache key of an invocation, and the property of a list of invocations that no
  invocation follows one with the same key that returned a class.
\<close>

definition inv_key :: "(call_args \<times> pyval \<times> 'b) \<times> ('e + 'c) \<Rightarrow> key_item list" where
  "inv_key i = make_key (fst (fst i))"

fun quiet_after_success :: "((call_args \<times> pyval \<times> 'b) \<times> ('e + 'c)) list \<Rightarrow> bool" where
  "quiet_after_success [] = True"
| "quiet_after_success (((a, sch, b), Inr c) # rest) =
     ((\<forall>j \<in> set rest. inv_key j \<noteq> make_key a) \<and> quiet_after_success rest)"
| "quiet_after_success (((a, sch, b), Inl e) # rest) = quiet_after_success rest"

fun returned :: "call_args list \<Rightarrow> ('e + 'c) list \<Rightarrow> (key_item list \<times> 'c) set" where
  "returned (a # as) (Inr c # rs) = insert (make_key a, c) (returned as rs)"
| "returned (a # as) (Inl e # rs) = returned as rs"
| "returned as rs = {}"

section \<open>The file-based entry points\<close>

text \<open>
  What the entry points need from their host: the files that can be opened, with their
  contents; the function \<^verbatim>\<open>yaml.load\<close> with \<^verbatim>\<open>yaml.Loader\<close> when the package pyyaml
  is installed; \<^verbatim>\<open>json.load\<close>; and the base that \<^verbatim>\<open>declarative_base()\<close> creates.
\<close>

record 'b host =
  files :: "string \<rightharpoonup> string"
  yaml_module :: "(string \<Rightarrow> error + pyval) option"
  json_load :: "string \<Rightarrow> error + pyval"
  declarative_base :: 'b

text \<open>
  The keyword argument \<^verbatim>\<open>base\<close> of a call: left out, or passed, and then \<^verbatim>\<open>None\<close>
  or a base. \<^verbatim>\<open>init_json\<close> declares it without a default, \<^verbatim>\<open>init_yaml\<close> with the
  default \<^verbatim>\<open>None\<close>.
\<close>

datatype 'b kwarg = Omitted | Passed "'b option"

fun bind_required :: "'b kwarg \<Rightarrow> error + 'b option" where
  "bind_required Omitted =
     Inl (TypeError ''init_json() missing 1 required keyword-only argument: base'')"
| "bind_required (Passed v) = Inr v"

fun bind_default :: "'b kwarg \<Rightarrow> 'b option \<Rightarrow> 'b option" where
  "bind_default Omitted d = d"
| "bind_default (Passed v) d = v"

text \<open>
  The local variable \<^verbatim>\<open>Base\<close> after
  \<^verbatim>\<open>if base is None: Base = declarative_base()\<close>: bound to the new base, or still
  unbound (\<open>None\<close>). Reading an unbound local raises \<^verbatim>\<open>UnboundLocalError\<close>.
\<close>

definition assign_Base :: "'b option \<Rightarrow> 'b \<Rightarrow> 'b option" where
  "assign_Base base fresh = (if base = None then Some fresh else None)"

definition load_local :: "string \<Rightarrow> 'b option \<Rightarrow> error + 'b" where
  "load_local n v = (case v of None \<Rightarrow> Inl (UnboundLocalError n) | Some b \<Rightarrow> Inr b)"

text \<open>
  The names bound at module level in \<^verbatim>\<open>openapi_sqlalchemy/__init__.py\<close>, and the lookup
  of a global name; no builtin is called \<^verbatim>\<open>Loader\<close>.
\<close>

definition module_names :: "string list" where
  "module_names =
     [''functools'', ''typing'', ''typing_extensions'', ''declarative_base'',
      ''exceptions'', ''_model_factory'', ''types'', ''ModelFactory'',
      ''init_model_factory'', ''init_json'', ''init_yaml'', ''__all__'']"

definition load_global :: "string \<Rightarrow> error + unit" where
  "load_global n = (if n \<in> set module_names then Inr () else Inl (NameError n))"

definition open_file :: "'b host \<Rightarrow> string \<Rightarrow> error + string" where
  "open_file h path =
     (case files h path of None \<Rightarrow> Inl (FileNotFoundError path) | Some text \<Rightarrow> Inr text)"

definition yaml_msg :: string where
  "yaml_msg = ''Using init_yaml requires the pyyaml package. Try `pip install pyyaml`.''"

text \<open>
  Both entry points return their result together with the list of paths they tried to
  open.

  \<^verbatim>\<open>init_json(spec_filename, *, base)\<close>: the arguments of \<^verbatim>\<open>json.load\<close> are evaluated
  before the call, the keyword value \<^verbatim>\<open>Loader\<close> among them.
\<close>

definition init_json ::
  "'b host \<Rightarrow> string \<Rightarrow> 'b kwarg \<Rightarrow> (error + 'b \<times> ('b, 'c) factory) \<times> string list" where
  "init_json h spec_filename base_kw =
     (case bind_required base_kw of
        Inl e \<Rightarrow> (Inl e, [])
      | Inr base \<Rightarrow>
          (let Base = assign_Base base (declarative_base h) in
           (case open_file h spec_filename of
              Inl e \<Rightarrow> Inl e
            | Inr spec_file \<Rightarrow>
                (case load_global ''Loader'' of
                   Inl e \<Rightarrow> Inl e
                 | Inr loader \<Rightarrow>
                     (case json_load h spec_file of
                        Inl e \<Rightarrow> Inl e
                      | Inr spec \<Rightarrow>
                          (case load_local ''Base'' Base of
                             Inl e \<Rightarrow> Inl e
                           | Inr b \<Rightarrow>
                               (case init_model_factory b spec of
                                  Inl e \<Rightarrow> Inl e
                                | Inr model_factory \<Rightarrow> Inr (b, model_factory))))),
            [spec_filename])))"

text \<open>
  \<^verbatim>\<open>init_yaml(spec_filename, *, base=None)\<close>: the import of \<^verbatim>\<open>yaml\<close> comes first.
\<close>

definition init_yaml ::
  "'b host \<Rightarrow> string \<Rightarrow> 'b kwarg \<Rightarrow> (error + 'b \<times> ('b, 'c) factory) \<times> string list" where
  "init_yaml h spec_filename base_kw =
     (let base = bind_default base_kw None in
      case yaml_module h of
        None \<Rightarrow> (Inl (ImportError yaml_msg), [])
      | Some yaml_load \<Rightarrow>
          (let Base = assign_Base base (declarative_base h) in
           (case open_file h spec_filename of
              Inl e \<Rightarrow> Inl e
            | Inr spec_file \<Rightarrow>
                (case yaml_load spec_file of
                   Inl e \<Rightarrow> Inl e
                 | Inr spec \<Rightarrow>
                     (case load_local ''Base'' Base of
                        Inl e \<Rightarrow> Inl e
                      | Inr b \<Rightarrow>
                          (case init_model_factory b spec of
                             Inl e \<Rightarrow> Inl e
                           | Inr model_factory \<Rightarrow> Inr (b, model_factory)))),
            [spec_filename])))"


section \<open>A collaborator, a specification and a host for concrete runs\<close>

text \<open>
  Modelled from the spec: the model-building collaborator, module \<^verbatim>\<open>model_factory\<close> of
  the package, which is not among the sources. The spec has it raise an opaque error
  when the requested name is absent from the schemas or the schema definition cannot be
  translated, and return a model class otherwise. Here a definition can be translated
  when it is a dictionary; the world counts the classes built so far, and a new class is
  identified by that count, so that two builds never give the same object.
\<close>

datatype schema_error = SchemaNotFound string | MalformedSchema string

fun example_collaborator :: "(nat, nat, schema_error, nat) collaborator" where
  "example_collaborator a (PDict schemas) base w =
     (case map_of schemas (arg_name a) of
        None \<Rightarrow> (Inl (SchemaNotFound (arg_name a)), w)
      | Some (PDict d) \<Rightarrow> (Inr w, Suc w)
      | Some other \<Rightarrow> (Inl (MalformedSchema (arg_name a)), w))"
| "example_collaborator a schemas base w = (Inl (SchemaNotFound (arg_name a)), w)"

text \<open>
  The collaborator of the integration tests, a mock: it accepts every call and returns
  its one return value.
\<close>

definition mocked_model_factory :: "(nat, nat, schema_error, nat) collaborator" where
  "mocked_model_factory a schemas base w = (Inr 0, w)"

definition pet_schemas :: pyval where
  "pet_schemas = PDict [(''Pet'', PDict [(''type'', PStr ''object'')]), (''Broken'', PNone)]"

definition pet_spec :: pyval where
  "pet_spec = PDict [(''components'', PDict [(''schemas'', pet_schemas)])]"

definition pet_factory :: "(nat, nat) factory" where
  "pet_factory = \<lparr>bound_schemas = pet_schemas, bound_base = 7, cache = Map.empty,
                   hits = 0, misses = 0\<rparr>"

definition empty_factory :: "(nat, nat) factory" where
  "empty_factory = \<lparr>bound_schemas = PDict [], bound_base = 7, cache = Map.empty,
                     hits = 0, misses = 0\<rparr>"

definition pet_text :: string where
  "pet_text = ''components: {schemas: {Pet: {type: object}, Broken: null}}''"

definition pet_parser :: "string \<Rightarrow> error + pyval" where
  "pet_parser text = (if text = pet_text then Inr pet_spec else Inl (ParseError text))"

text \<open>A host with one specification file and pyyaml installed, and the same without pyyaml.\<close>

definition pet_host :: "nat host" where
  "pet_host = \<lparr>files = [''openapi.yaml'' \<mapsto> pet_text], yaml_module = Some pet_parser,
                json_load = pet_parser, declarative_base = 1\<rparr>"

definition bare_host :: "nat host" where
  "bare_host = pet_host\<lparr>yaml_module := None\<rparr>"


section \<open>Construction\<close>

lemma substring_components_msg: "substring ''components'' components_msg"
  unfolding components_msg_def by simp

lemma substring_schemas_msg: "substring ''schemas'' schemas_msg"
  unfolding schemas_msg_def by simp

lemma msgs_differ: "schemas_msg \<noteq> components_msg"
  unfolding schemas_msg_def components_msg_def by simp

lemma key_of_lookup: "map_of kvs k = Some v \<Longrightarrow> k \<in> set (map fst kvs)"
  by (force dest: map_of_SomeD)

lemma components_step:
  assumes "map_of kvs ''components'' = Some comps"
  shows "py_in ''components'' (PDict kvs) = Inr True"
    and "py_get (PDict kvs) ''components'' d = Inr comps"
  using assms key_of_lookup [OF assms] by simp_all

text \<open>
  C3. A specification dictionary without the key \<^verbatim>\<open>components\<close> makes
  \<^verbatim>\<open>init_model_factory\<close> raise \<^verbatim>\<open>MalformedSpecificationError\<close> (the structural error, not a
  plain lookup error) with a message that names \<^verbatim>\<open>components\<close>; no factory is returned.
\<close>

theorem missing_components:
  "''components'' \<notin> set (map fst kvs) \<Longrightarrow>
     init_model_factory base (PDict kvs) = Inl (MalformedSpecificationError components_msg)
     \<and> substring ''components'' components_msg"
  by (simp add: init_model_factory_def substring_components_msg)

theorem missing_components_witness:
  "''components'' \<notin> set (map fst [(''info'', PDict [])])
   \<and> (init_model_factory (0::nat) (PDict [(''info'', PDict [])]) :: error + (nat, nat) factory)
       = Inl (MalformedSpecificationError components_msg)
   \<and> substring ''components'' components_msg"
  using missing_components [of "[(''info'', PDict [])]" "0::nat"] by simp

text \<open>
  A \<^verbatim>\<open>components\<close> value that is present but is no container, here \<^verbatim>\<open>None\<close>: the
  membership test for \<^verbatim>\<open>schemas\<close> raises \<^verbatim>\<open>TypeError\<close>, and that is what
  \<^verbatim>\<open>init_model_factory\<close> raises, not the structural error.
\<close>

theorem missing_schemas_counterexample:
  "map_of [(''components'', PNone)] ''components'' = Some PNone
   \<and> (init_model_factory (0::nat) (PDict [(''components'', PNone)])
         :: error + (nat, nat) factory)
       = Inl (TypeError ''argument of type NoneType is not iterable'')
   \<and> (init_model_factory (0::nat) (PDict [(''components'', PNone)])
         :: error + (nat, nat) factory)
       \<noteq> Inl (MalformedSpecificationError schemas_msg)"
  by (simp add: init_model_factory_def)

text \<open>
  C4 (amended). When \<^verbatim>\<open>components\<close> is present and is a dictionary without the key
  \<^verbatim>\<open>schemas\<close>, or any other value on which the test \<^verbatim>\<open>"schemas" in components\<close>
  is false, \<^verbatim>\<open>init_model_factory\<close> raises \<^verbatim>\<open>MalformedSpecificationError\<close> with a
  message that names \<^verbatim>\<open>schemas\<close> and differs from the message for a missing
  \<^verbatim>\<open>components\<close>. When the test itself raises, because \<^verbatim>\<open>components\<close> is no
  container, \<^verbatim>\<open>init_model_factory\<close> raises that error.
\<close>

theorem missing_schemas:
  assumes "map_of kvs ''components'' = Some comps"
  shows "(\<forall>cs. comps = PDict cs \<and> ''schemas'' \<notin> set (map fst cs) \<longrightarrow>
            init_model_factory base (PDict kvs) = Inl (MalformedSpecificationError schemas_msg))
     \<and> (py_in ''schemas'' comps = Inr False \<longrightarrow>
            init_model_factory base (PDict kvs) = Inl (MalformedSpecificationError schemas_msg))
     \<and> (\<forall>e. py_in ''schemas'' comps = Inl e \<longrightarrow>
            init_model_factory base (PDict kvs) = Inl e)
     \<and> substring ''schemas'' schemas_msg \<and> schemas_msg \<noteq> components_msg"
  using components_step [OF assms]
  by (simp add: init_model_factory_def substring_schemas_msg msgs_differ)

theorem missing_schemas_witness:
  "map_of [(''components'', PDict [])] ''components'' = Some (PDict [])
   \<and> ''schemas'' \<notin> set (map fst ([] :: (string \<times> pyval) list))
   \<and> (init_model_factory (0::nat) (PDict [(''components'', PDict [])])
         :: error + (nat, nat) factory) = Inl (MalformedSpecificationError schemas_msg)
   \<and> substring ''schemas'' schemas_msg \<and> schemas_msg \<noteq> components_msg"
proof -
  have c: "map_of [(''components'', PDict [])] ''components'' = Some (PDict [])" by simp
  have n: "''schemas'' \<notin> set (map fst ([] :: (string \<times> pyval) list))" by simp
  note t = missing_schemas [OF c, of "0::nat"]
  from conjunct1 [OF t] n
  have "(init_model_factory (0::nat) (PDict [(''components'', PDict [])])
         :: error + (nat, nat) factory) = Inl (MalformedSpecificationError schemas_msg)"
    by blast
  with c n t show ?thesis by blast
qed

text \<open>
  C5. When the specification is a dictionary with a dictionary under \<^verbatim>\<open>components\<close>
  that has the key \<^verbatim>\<open>schemas\<close> (whatever is stored there, an empty dictionary included),
  \<^verbatim>\<open>init_model_factory\<close> raises nothing and returns the factory: the schemas and the
  base bound, the cache empty. Called with a name, the new factory gives what the
  collaborator gives for that name, these schemas and this base.
\<close>

theorem construction_succeeds:
  assumes "map_of kvs ''components'' = Some (PDict cs)"
    and "map_of cs ''schemas'' = Some schemas"
  shows "init_model_factory base (PDict kvs) =
       Inr \<lparr>bound_schemas = schemas, bound_base = base, cache = Map.empty,
            hits = 0, misses = 0\<rparr>
     \<and> (\<forall>mf a w.
           fst (call mf a (start \<lparr>bound_schemas = schemas, bound_base = base,
                  cache = Map.empty, hits = 0, misses = 0\<rparr> w))
             = fst (mf a schemas base w))"
proof -
  have "init_model_factory base (PDict kvs) =
       Inr \<lparr>bound_schemas = schemas, bound_base = base, cache = Map.empty,
            hits = 0, misses = 0\<rparr>"
    using assms(2) components_step [OF assms(1)] key_of_lookup [OF assms(2)]
    by (simp add: init_model_factory_def)
  moreover have "fst (call mf a (start \<lparr>bound_schemas = schemas, bound_base = base,
                  cache = Map.empty, hits = 0, misses = 0\<rparr> w))
             = fst (mf a schemas base w)" for mf a w
    by (simp add: call_def start_def Let_def split: prod.splits sum.splits)
  ultimately show ?thesis by blast
qed

theorem construction_succeeds_witness:
  "map_of [(''components'', PDict [(''schemas'', PDict [])])] ''components''
     = Some (PDict [(''schemas'', PDict [])])
   \<and> map_of [(''schemas'', PDict [])] ''schemas'' = Some (PDict [])
   \<and> (init_model_factory (0::nat) (PDict [(''components'', PDict [(''schemas'', PDict [])])])
         :: error + (nat, nat) factory) =
       Inr \<lparr>bound_schemas = PDict [], bound_base = 0, cache = Map.empty,
            hits = 0, misses = 0\<rparr>"
proof -
  have c: "map_of [(''components'', PDict [(''schemas'', PDict [])])] ''components''
     = Some (PDict [(''schemas'', PDict [])])"
    by simp
  have s: "map_of [(''schemas'', PDict [])] ''schemas'' = Some (PDict [])"
    by simp
  have "(init_model_factory (0::nat) (PDict [(''components'', PDict [(''schemas'', PDict [])])])
         :: error + (nat, nat) factory) =
       Inr \<lparr>bound_schemas = PDict [], bound_base = 0, cache = Map.empty,
            hits = 0, misses = 0\<rparr>"
    by (rule conjunct1 [OF construction_succeeds [OF c s]])
  with c s show ?thesis by blast
qed

section \<open>The cache\<close>


lemma call_hit:
  assumes "cache (fac s) (make_key a) = Some c"
  shows "call mf a s = (Inr c, s\<lparr>fac := (fac s)\<lparr>hits := hits (fac s) + 1\<rparr>\<rparr>)"
  using assms by (simp add: call_def Let_def)

lemma call_miss_raise:
  assumes "cache (fac s) (make_key a) = None"
    and "mf a (bound_schemas (fac s)) (bound_base (fac s)) (world s) = (Inl e, w1)"
  shows "call mf a s =
     (Inl e, s\<lparr>fac := (fac s)\<lparr>misses := misses (fac s) + 1\<rparr>, world := w1,
               invocations := invocations s
                 @ [((a, bound_schemas (fac s), bound_base (fac s)), Inl e)]\<rparr>)"
  using assms by (simp add: call_def Let_def)

lemma call_miss_return:
  assumes "cache (fac s) (make_key a) = None"
    and "mf a (bound_schemas (fac s)) (bound_base (fac s)) (world s) = (Inr c, w1)"
  shows "call mf a s =
     (Inr c, s\<lparr>fac := (fac s)\<lparr>misses := misses (fac s) + 1,
                              cache := (cache (fac s))(make_key a \<mapsto> c)\<rparr>,
               world := w1,
               invocations := invocations s
                 @ [((a, bound_schemas (fac s), bound_base (fac s)), Inr c)]\<rparr>)"
  using assms by (simp add: call_def Let_def)

lemma call_cases:
  fixes s :: "('b, 'c, 'e, 'w) session" and mf :: "('b, 'c, 'e, 'w) collaborator"
  obtains (hit) c where "cache (fac s) (make_key a) = Some c"
  | (raise) e w1 where "cache (fac s) (make_key a) = None"
      "mf a (bound_schemas (fac s)) (bound_base (fac s)) (world s) = (Inl e, w1)"
  | (return) c w1 where "cache (fac s) (make_key a) = None"
      "mf a (bound_schemas (fac s)) (bound_base (fac s)) (world s) = (Inr c, w1)"
proof (cases "cache (fac s) (make_key a)")
  case None
  obtain r w1 where m: "mf a (bound_schemas (fac s)) (bound_base (fac s)) (world s) = (r, w1)"
    by (cases "mf a (bound_schemas (fac s)) (bound_base (fac s)) (world s)")
  show ?thesis
  proof (cases r)
    case (Inl e)
    with None m show ?thesis by (auto intro: raise)
  next
    case (Inr c)
    with None m show ?thesis by (auto intro: return)
  qed
next
  case (Some c)
  then show ?thesis by (rule hit)
qed

lemma call_bound:
  "bound_schemas (fac (snd (call mf a s))) = bound_schemas (fac s)
   \<and> bound_base (fac (snd (call mf a s))) = bound_base (fac s)"
  by (rule call_cases [where s = s and a = a and mf = mf])
     (simp_all add: call_hit call_miss_raise call_miss_return)

lemma calls_bound:
  "bound_schemas (fac (snd (calls mf as s))) = bound_schemas (fac s)
   \<and> bound_base (fac (snd (calls mf as s))) = bound_base (fac s)"
proof (induction as arbitrary: s)
  case Nil
  show ?case by simp
next
  case (Cons a as)
  obtain r s1 where c: "call mf a s = (r, s1)" by (cases "call mf a s")
  obtain rs s2 where cs: "calls mf as s1 = (rs, s2)" by (cases "calls mf as s1")
  from Cons.IH [of s1] call_bound [of mf a s] c cs show ?case by simp
qed

lemma call_cache_mono:
  assumes "cache (fac s) k = Some c"
  shows "cache (fac (snd (call mf a s))) k = Some c"
  by (insert assms, rule call_cases [where s = s and a = a and mf = mf])
     (auto simp add: call_hit call_miss_raise call_miss_return)

lemma calls_cache_mono:
  "cache (fac s) k = Some c \<Longrightarrow> cache (fac (snd (calls mf as s))) k = Some c"
proof (induction as arbitrary: s)
  case Nil
  then show ?case by simp
next
  case (Cons a as)
  obtain r s1 where c: "call mf a s = (r, s1)" by (cases "call mf a s")
  obtain rs s2 where cs: "calls mf as s1 = (rs, s2)" by (cases "calls mf as s1")
  from call_cache_mono [OF Cons.prems, of mf a] c have "cache (fac s1) k = Some c" by simp
  from Cons.IH [OF this] c cs show ?case by simp
qed

lemma call_result_cached:
  assumes "fst (call mf a s) = Inr c"
  shows "cache (fac (snd (call mf a s))) (make_key a) = Some c"
  by (insert assms, rule call_cases [where s = s and a = a and mf = mf])
     (auto simp add: call_hit call_miss_raise call_miss_return)

lemma returned_cached:
  "(k, c) \<in> returned as (fst (calls mf as s)) \<Longrightarrow> cache (fac (snd (calls mf as s))) k = Some c"
proof (induction as arbitrary: s)
  case Nil
  then show ?case by simp
next
  case (Cons a as)
  obtain r s1 where c: "call mf a s = (r, s1)" by (cases "call mf a s")
  obtain rs s2 where cs: "calls mf as s1 = (rs, s2)" by (cases "calls mf as s1")
  from Cons.prems c cs have mem: "(k, c) \<in> returned (a # as) (r # rs)" by simp
  show ?case
  proof (cases "(k, c) \<in> returned as rs")
    case True
    with Cons.IH [of s1] c cs show ?thesis by simp
  next
    case False
    with mem have r: "r = Inr c" and k: "k = make_key a"
      by (cases r; simp)+
    from call_result_cached [of mf a s c] c r have "cache (fac s1) (make_key a) = Some c"
      by simp
    from calls_cache_mono [OF this, of mf as] c cs k show ?thesis by simp
  qed
qed

lemma successes_append:
  "successes k (log @ [i]) = successes k log + (if succeeded k i then 1 else 0)"
  by (simp add: successes_def)

lemma call_successes:
  assumes "\<forall>k. successes k (invocations s) = (if cache (fac s) k = None then 0 else 1)"
  shows "successes k (invocations (snd (call mf a s)))
           = (if cache (fac (snd (call mf a s))) k = None then 0 else 1)"
  by (insert assms, rule call_cases [where s = s and a = a and mf = mf])
     (auto simp add: call_hit call_miss_raise call_miss_return successes_append)

lemma calls_successes:
  assumes "\<forall>k. successes k (invocations s) = (if cache (fac s) k = None then 0 else 1)"
  shows "successes k (invocations (snd (calls mf as s)))
           = (if cache (fac (snd (calls mf as s))) k = None then 0 else 1)"
  using assms
proof (induction as arbitrary: s k)
  case Nil
  then show ?case by simp
next
  case (Cons a as)
  obtain r s1 where c: "call mf a s = (r, s1)" by (cases "call mf a s")
  obtain rs s2 where cs: "calls mf as s1 = (rs, s2)" by (cases "calls mf as s1")
  have "\<forall>k. successes k (invocations s1) = (if cache (fac s1) k = None then 0 else 1)"
    using call_successes [OF Cons.prems, of _ mf a] c by simp
  from Cons.IH [OF this, of k] c cs show ?case by simp
qed

lemma init_cache_empty:
  "init_model_factory base spec = Inr f \<Longrightarrow> cache f = Map.empty \<and> bound_base f = base"
  by (auto simp add: init_model_factory_def split: sum.splits if_splits)

lemma start_successes:
  "cache f = Map.empty \<Longrightarrow>
     \<forall>k. successes k (invocations (start f w)) = (if cache (fac (start f w)) k = None then 0 else 1)"
  by (simp add: start_def successes_def)


text \<open>Once the collaborator has returned a class for a key, it is not invoked for it again.\<close>

lemma quiet_append:
  "quiet_after_success (log @ [j])
     = (quiet_after_success log \<and> (\<forall>i \<in> set log. \<not> succeeded (inv_key j) i))"
proof (induction log rule: quiet_after_success.induct)
  case 1
  obtain a sch b r where j: "j = ((a, sch, b), r)" by (cases j) auto
  show ?case by (cases r) (simp_all add: j)
next
  case (2 a sch b c rest)
  then show ?case by (auto simp add: inv_key_def)
next
  case (3 a sch b e rest)
  then show ?case by simp
qed

lemma no_success:
  "successes k log = 0 \<Longrightarrow> \<forall>i \<in> set log. \<not> succeeded k i"
  by (simp add: successes_def filter_empty_conv)

lemma call_quiet:
  assumes "\<forall>k. successes k (invocations s) = (if cache (fac s) k = None then 0 else 1)"
    and "quiet_after_success (invocations s)"
  shows "quiet_after_success (invocations (snd (call mf a s)))"
proof (rule call_cases [where s = s and a = a and mf = mf])
  fix c assume "cache (fac s) (make_key a) = Some c"
  with assms(2) show ?thesis by (simp add: call_hit)
next
  fix e w1
  assume m: "cache (fac s) (make_key a) = None"
    and r: "mf a (bound_schemas (fac s)) (bound_base (fac s)) (world s) = (Inl e, w1)"
  from assms(1) m have "successes (make_key a) (invocations s) = 0" by simp
  from no_success [OF this] assms(2) show ?thesis
    by (simp add: call_miss_raise [where s = s and mf = mf and a = a, OF m r] quiet_append inv_key_def)
next
  fix c w1
  assume m: "cache (fac s) (make_key a) = None"
    and r: "mf a (bound_schemas (fac s)) (bound_base (fac s)) (world s) = (Inr c, w1)"
  from assms(1) m have "successes (make_key a) (invocations s) = 0" by simp
  from no_success [OF this] assms(2) show ?thesis
    by (simp add: call_miss_return [where s = s and mf = mf and a = a, OF m r] quiet_append inv_key_def)
qed

lemma calls_quiet:
  assumes "\<forall>k. successes k (invocations s) = (if cache (fac s) k = None then 0 else 1)"
    and "quiet_after_success (invocations s)"
  shows "quiet_after_success (invocations (snd (calls mf as s)))"
  using assms
proof (induction as arbitrary: s)
  case Nil
  then show ?case by simp
next
  case (Cons a as)
  obtain r s1 where c: "call mf a s = (r, s1)" by (cases "call mf a s")
  obtain rs s2 where cs: "calls mf as s1 = (rs, s2)" by (cases "calls mf as s1")
  have 1: "\<forall>k. successes k (invocations s1) = (if cache (fac s1) k = None then 0 else 1)"
    using call_successes [OF Cons.prems(1), of _ mf a] c by simp
  have 2: "quiet_after_success (invocations s1)"
    using call_quiet [OF Cons.prems, of mf a] c by simp
  from Cons.IH [OF 1 2] c cs show ?case by simp
qed




lemma start_simps:
  "fac (start f w) = f" "world (start f w) = w" "invocations (start f w) = []"
  by (simp_all add: start_def)

lemma calls_two:
  "calls mf [a1, a2] s =
     ([fst (call mf a1 s), fst (call mf a2 (snd (call mf a1 s)))],
      snd (call mf a2 (snd (call mf a1 s))))"
  by (simp split: prod.splits)



text \<open>
  The two cache scenarios of the integration tests, with the mocked collaborator and
  empty schemas: two names give two invocations, one name twice gives one.
\<close>

lemma test_cache_diff:
  "length (invocations (snd (calls mocked_model_factory
      [Keyword ''table 1'', Keyword ''table 2''] (start empty_factory 0)))) = 2"
  by (simp add: call_def Let_def start_def empty_factory_def mocked_model_factory_def)

lemma test_cache_same:
  "length (invocations (snd (calls mocked_model_factory
      [Keyword ''table 1'', Keyword ''table 1''] (start empty_factory 0)))) = 1"
  by (simp add: call_def Let_def start_def empty_factory_def mocked_model_factory_def)

text \<open>
  A name passed once by keyword and once by position has two cache keys: with a
  collaborator that accepts both, each call builds a class.
\<close>

lemma keyword_and_positional:
  "fst (calls example_collaborator [Keyword ''Pet'', Positional ''Pet''] (start pet_factory 0))
     = [Inr 0, Inr 1]"
  by (simp add: call_def Let_def start_def pet_factory_def pet_schemas_def)

lemma pet_init: "(init_model_factory 7 pet_spec :: error + (nat, nat) factory) = Inr pet_factory"
  by (simp add: init_model_factory_def pet_spec_def pet_factory_def)

text \<open>
  The name \<^verbatim>\<open>Broken\<close> is a key of the schemas, its definition cannot be translated, and
  two calls with it invoke the collaborator twice.
\<close>

theorem same_name_counterexample:
  "(init_model_factory 7 pet_spec :: error + (nat, nat) factory) = Inr pet_factory
   \<and> py_in ''Broken'' (bound_schemas pet_factory) = Inr True
   \<and> map snd (invocations (snd (calls example_collaborator
         [Keyword ''Broken'', Keyword ''Broken''] (start pet_factory 0))))
       = [Inl (MalformedSchema ''Broken''), Inl (MalformedSchema ''Broken'')]"
  by (simp add: init_model_factory_def pet_spec_def pet_factory_def pet_schemas_def
        call_def start_def)

text \<open>
  C1 (amended). On a factory that \<^verbatim>\<open>init_model_factory\<close> returned, when the collaborator
  returns a class for a call, making that call twice invokes the collaborator exactly
  once and both calls return that same class object. Over any sequence of calls the
  collaborator returns a class at most once for each cache key (the name and the way it
  is passed) and is not invoked for that key afterwards, and all class objects handed
  back for one key are the same object.
\<close>

theorem same_call_cached:
  assumes "init_model_factory base spec = Inr f"
    and "mf a (bound_schemas f) (bound_base f) w = (Inr c, w1)"
  shows "fst (calls mf [a, a] (start f w)) = [Inr c, Inr c]
     \<and> invocations (snd (calls mf [a, a] (start f w)))
         = [((a, bound_schemas f, bound_base f), Inr c)]
     \<and> (\<forall>as k. successes k (invocations (snd (calls mf as (start f w)))) \<le> 1)
     \<and> (\<forall>as. quiet_after_success (invocations (snd (calls mf as (start f w)))))
     \<and> (\<forall>as k c1 c2.
           (k, c1) \<in> returned as (fst (calls mf as (start f w)))
           \<and> (k, c2) \<in> returned as (fst (calls mf as (start f w))) \<longrightarrow> c1 = c2)"
proof -
  let ?s0 = "start f w :: ('a, 'b, 'c, 'd) session"
  from init_cache_empty [OF assms(1)] have empty: "cache f = Map.empty" by simp
  then have m: "cache (fac ?s0) (make_key a) = None" by (simp add: start_simps)
  from assms(2) have r: "mf a (bound_schemas (fac ?s0)) (bound_base (fac ?s0)) (world ?s0)
      = (Inr c, w1)"
    by (simp add: start_simps)
  note first = call_miss_return [where s = "?s0" and mf = mf and a = a, OF m r]
  let ?s1 = "snd (call mf a ?s0)"
  from first have h: "cache (fac ?s1) (make_key a) = Some c" by simp
  note second = call_hit [where s = "?s1" and mf = mf and a = a, OF h]
  from first second have twice: "fst (calls mf [a, a] ?s0) = [Inr c, Inr c]"
    by (simp only: calls_two fst_conv)
  from first second
  have log: "invocations (snd (calls mf [a, a] ?s0)) = [((a, bound_schemas f, bound_base f), Inr c)]"
    by (simp add: calls_two start_simps)
  have life: "successes k (invocations (snd (calls mf as ?s0))) \<le> 1" for as k
    using calls_successes [OF start_successes [OF empty, of w], of k mf as] by simp
  have quiet: "quiet_after_success (invocations (snd (calls mf as ?s0)))" for as
    using calls_quiet [OF start_successes [OF empty, of w], of mf as] by (simp add: start_simps)
  have same: "c1 = c2"
    if "(k, c1) \<in> returned as (fst (calls mf as ?s0))"
      and "(k, c2) \<in> returned as (fst (calls mf as ?s0))" for as k c1 c2
    using returned_cached [OF that(1)] returned_cached [OF that(2)] by simp
  from twice log life quiet same show ?thesis by blast
qed

theorem same_call_cached_witness:
  "(init_model_factory 7 pet_spec :: error + (nat, nat) factory) = Inr pet_factory
   \<and> example_collaborator (Keyword ''Pet'') (bound_schemas pet_factory)
         (bound_base pet_factory) 0 = (Inr 0, 1)
   \<and> fst (calls example_collaborator [Keyword ''Pet'', Keyword ''Pet''] (start pet_factory 0))
       = [Inr 0, Inr 0]
   \<and> invocations (snd (calls example_collaborator [Keyword ''Pet'', Keyword ''Pet'']
         (start pet_factory 0)))
       = [((Keyword ''Pet'', bound_schemas pet_factory, bound_base pet_factory), Inr 0)]
   \<and> successes (make_key (Keyword ''Pet''))
         (invocations (snd (calls example_collaborator
            [Keyword ''Pet'', Keyword ''Broken'', Keyword ''Pet''] (start pet_factory 0)))) \<le> 1
   \<and> quiet_after_success (invocations (snd (calls example_collaborator
         [Keyword ''Pet'', Keyword ''Broken'', Keyword ''Pet'', Keyword ''Broken'']
         (start pet_factory 0))))"
proof -
  have i: "(init_model_factory 7 pet_spec :: error + (nat, nat) factory) = Inr pet_factory"
    by (rule pet_init)
  have b: "example_collaborator (Keyword ''Pet'') (bound_schemas pet_factory)
         (bound_base pet_factory) 0 = (Inr 0, 1)"
    by (simp add: pet_factory_def pet_schemas_def)
  from same_call_cached
      [where mf = example_collaborator and a = "Keyword ''Pet''" and w = 0, OF i b] i b
  show ?thesis by blast
qed

text \<open>
  C7. Whenever the collaborator raises during a call of a factory that
  \<^verbatim>\<open>init_model_factory\<close> returned (after any earlier calls), the call raises the same
  error, and the collaborator has been invoked once for it: nothing is caught,
  translated or retried.
\<close>

theorem collaborator_error_propagates:
  assumes "init_model_factory base spec = Inr f"
    and "s = snd (calls mf earlier (start f w))"
    and "cache (fac s) (make_key a) = None"
    and "mf a (bound_schemas f) (bound_base f) (world s) = (Inl e, w1)"
  shows "fst (call mf a s) = Inl e
     \<and> invocations (snd (call mf a s))
         = invocations s @ [((a, bound_schemas f, bound_base f), Inl e)]"
proof -
  from assms(2) calls_bound [of mf earlier "start f w"]
  have b: "bound_schemas (fac s) = bound_schemas f" "bound_base (fac s) = bound_base f"
    by (simp_all add: start_simps)
  with assms(4)
  have "mf a (bound_schemas (fac s)) (bound_base (fac s)) (world s) = (Inl e, w1)" by simp
  from call_miss_raise [where s = s and mf = mf and a = a, OF assms(3) this] b
  show ?thesis by simp
qed

theorem collaborator_error_propagates_witness:
  "(init_model_factory 7 pet_spec :: error + (nat, nat) factory) = Inr pet_factory
   \<and> cache (fac (snd (calls example_collaborator [Keyword ''Pet''] (start pet_factory 0))))
        (make_key (Keyword ''Dog'')) = None
   \<and> example_collaborator (Keyword ''Dog'') (bound_schemas pet_factory) (bound_base pet_factory)
        (world (snd (calls example_collaborator [Keyword ''Pet''] (start pet_factory 0))))
       = (Inl (SchemaNotFound ''Dog''), 1)
   \<and> fst (call example_collaborator (Keyword ''Dog'')
        (snd (calls example_collaborator [Keyword ''Pet''] (start pet_factory 0))))
       = Inl (SchemaNotFound ''Dog'')"
proof -
  let ?s = "snd (calls example_collaborator [Keyword ''Pet''] (start pet_factory 0))"
  have i: "(init_model_factory 7 pet_spec :: error + (nat, nat) factory) = Inr pet_factory"
    by (rule pet_init)
  have m: "cache (fac ?s) (make_key (Keyword ''Dog'')) = None"
    by (simp add: pet_factory_def pet_schemas_def call_def start_def)
  have r: "example_collaborator (Keyword ''Dog'') (bound_schemas pet_factory)
        (bound_base pet_factory) (world ?s) = (Inl (SchemaNotFound ''Dog''), 1)"
    by (simp add: pet_factory_def pet_schemas_def call_def start_def)
  from collaborator_error_propagates
      [where mf = example_collaborator and a = "Keyword ''Dog''", OF i refl m r] i m r show ?thesis by simp
qed




section \<open>Properties of the file-based entry points\<close>

lemma Loader_undefined: "load_global ''Loader'' = Inl (NameError ''Loader'')"
  by (simp add: load_global_def module_names_def)

lemma init_json_result:
  "fst (init_json h spec_filename base_kw) =
     (case base_kw of
        Omitted \<Rightarrow> Inl (TypeError ''init_json() missing 1 required keyword-only argument: base'')
      | Passed base \<Rightarrow>
          (case files h spec_filename of
             None \<Rightarrow> Inl (FileNotFoundError spec_filename)
           | Some contents \<Rightarrow> Inl (NameError ''Loader'')))"
  by (simp add: init_json_def open_file_def Loader_undefined Let_def
        split: kwarg.splits option.splits)

lemma py_in_error: "py_in k v \<noteq> Inl (ImportError m)"
  by (cases v) simp_all

lemma py_get_error: "py_get v k d \<noteq> Inl (ImportError m)"
  by (cases v) simp_all

lemma init_model_factory_errors:
  "init_model_factory base spec \<noteq> Inl (ImportError m)"
  using py_in_error py_get_error
  by (auto simp add: init_model_factory_def split: sum.splits if_splits)

lemma substring_yaml_msg: "substring ''pip install pyyaml'' yaml_msg"
  unfolding yaml_msg_def by simp

text \<open>
  C8. Without pyyaml \<^verbatim>\<open>init_yaml\<close> raises \<^verbatim>\<open>ImportError\<close> with a message that tells
  how to install the package, and has opened no file. The other two entry points never
  raise \<^verbatim>\<open>ImportError\<close>, and \<^verbatim>\<open>init_json\<close> does the same with and without pyyaml.
\<close>

theorem yaml_missing:
  assumes "yaml_module h = None"
  shows "init_yaml h spec_filename base_kw = (Inl (ImportError yaml_msg), [])
     \<and> substring ''pip install pyyaml'' yaml_msg
     \<and> (\<forall>m. fst (init_json h spec_filename base_kw) \<noteq> Inl (ImportError m))
     \<and> (\<forall>y. init_json (h\<lparr>yaml_module := y\<rparr>) spec_filename base_kw
              = init_json h spec_filename base_kw)
     \<and> (\<forall>base spec m. init_model_factory base spec \<noteq> Inl (ImportError m))"
proof -
  have 1: "init_yaml h spec_filename base_kw = (Inl (ImportError yaml_msg), [])"
    using assms by (simp add: init_yaml_def)
  have 2: "fst (init_json h spec_filename base_kw) \<noteq> Inl (ImportError m)" for m
    by (simp add: init_json_result split: kwarg.splits option.splits)
  have 3: "init_json (h\<lparr>yaml_module := y\<rparr>) spec_filename base_kw
              = init_json h spec_filename base_kw" for y
    by (cases base_kw)
       (simp_all add: init_json_def open_file_def Let_def Loader_undefined split: option.splits)
  from 1 2 3 substring_yaml_msg init_model_factory_errors show ?thesis by blast
qed

theorem yaml_missing_witness:
  "yaml_module bare_host = None
   \<and> (init_yaml bare_host ''openapi.yaml'' Omitted
         :: (error + nat \<times> (nat, nat) factory) \<times> string list)
       = (Inl (ImportError yaml_msg), [])
   \<and> (init_yaml bare_host ''no such file'' (Passed (Some 3))
         :: (error + nat \<times> (nat, nat) factory) \<times> string list)
       = (Inl (ImportError yaml_msg), [])"
proof -
  have y: "yaml_module bare_host = None" by (simp add: bare_host_def)
  from yaml_missing [OF y, of "''openapi.yaml''" Omitted]
    yaml_missing [OF y, of "''no such file''" "Passed (Some 3)"] y
  show ?thesis by blast
qed

text \<open>
  C10. \<^verbatim>\<open>init_json\<close> returns for no input. Whenever the file opens, the call raises
  \<^verbatim>\<open>NameError\<close> for \<^verbatim>\<open>Loader\<close>; otherwise it raised before. When a base is passed the
  local variable \<^verbatim>\<open>Base\<close> is unbound, so reading it would raise
  \<^verbatim>\<open>UnboundLocalError\<close>.
\<close>

theorem init_json_never_returns:
  "(\<forall>r. fst (init_json h spec_filename base_kw) \<noteq> Inr r)
   \<and> (files h spec_filename = Some contents \<and> base_kw = Passed base \<longrightarrow>
        fst (init_json h spec_filename base_kw) = Inl (NameError ''Loader''))
   \<and> assign_Base (Some b) (declarative_base h) = None
   \<and> load_local ''Base'' (assign_Base (Some b) (declarative_base h))
       = Inl (UnboundLocalError ''Base'')"
  by (simp add: init_json_result assign_Base_def load_local_def
        split: kwarg.splits option.splits)

theorem init_json_never_returns_witness:
  "files pet_host ''openapi.yaml'' = Some pet_text
   \<and> (fst (init_json pet_host ''openapi.yaml'' (Passed None)
         :: (error + nat \<times> (nat, nat) factory) \<times> string list))
       = Inl (NameError ''Loader'')"
proof -
  have f: "files pet_host ''openapi.yaml'' = Some pet_text" by (simp add: pet_host_def)
  from init_json_never_returns
    [where h = pet_host and spec_filename = "''openapi.yaml''" and base_kw = "Passed None"
       and contents = pet_text and base = None] f
  show ?thesis by blast
qed

text \<open>
  C6. With pyyaml installed, a readable specification file and a base passed by the
  caller, \<^verbatim>\<open>init_yaml\<close> raises \<^verbatim>\<open>UnboundLocalError\<close> for \<^verbatim>\<open>Base\<close> after reading the
  file; \<^verbatim>\<open>init_json\<close> cannot be called without \<^verbatim>\<open>base\<close> and raises \<^verbatim>\<open>NameError\<close>
  when the base is \<^verbatim>\<open>None\<close>.
\<close>

theorem given_base_fails:
  "(init_yaml pet_host ''openapi.yaml'' (Passed (Some 3))
      :: (error + nat \<times> (nat, nat) factory) \<times> string list)
     = (Inl (UnboundLocalError ''Base''), [''openapi.yaml''])
   \<and> (init_json pet_host ''openapi.yaml'' Omitted
      :: (error + nat \<times> (nat, nat) factory) \<times> string list)
     = (Inl (TypeError ''init_json() missing 1 required keyword-only argument: base''), [])
   \<and> (init_json pet_host ''openapi.yaml'' (Passed None)
      :: (error + nat \<times> (nat, nat) factory) \<times> string list)
     = (Inl (NameError ''Loader''), [''openapi.yaml''])"
  by (simp add: init_yaml_def init_json_def pet_host_def pet_parser_def open_file_def
        assign_Base_def load_local_def Loader_undefined)

text \<open>
  What \<^verbatim>\<open>init_yaml\<close> does when no base is passed: it returns the new base and the factory
  of the parsed specification.
\<close>

lemma init_yaml_default_base:
  assumes "yaml_module h = Some yaml_load"
    and "files h spec_filename = Some contents"
    and "yaml_load contents = Inr spec"
    and "init_model_factory (declarative_base h) spec = Inr model_factory"
    and "base_kw = Omitted \<or> base_kw = Passed None"
  shows "init_yaml h spec_filename base_kw
           = (Inr (declarative_base h, model_factory), [spec_filename])"
  using assms by (auto simp add: init_yaml_def open_file_def assign_Base_def load_local_def)

lemma init_yaml_given_base:
  assumes "yaml_module h = Some yaml_load"
    and "files h spec_filename = Some contents"
    and "yaml_load contents = Inr spec"
  shows "init_yaml h spec_filename (Passed (Some b))
           = (Inl (UnboundLocalError ''Base''), [spec_filename])"
  using assms by (simp add: init_yaml_def open_file_def assign_Base_def load_local_def)

lemma init_yaml_pet:
  "(init_yaml pet_host ''openapi.yaml'' Omitted
      :: (error + nat \<times> (nat, nat) factory) \<times> string list)
     = (Inr (1, pet_factory\<lparr>bound_base := 1\<rparr>), [''openapi.yaml''])"
  by (simp add: init_yaml_def pet_host_def pet_parser_def open_file_def assign_Base_def
        load_local_def init_model_factory_def pet_spec_def pet_factory_def)

end
